theory Spec2Isabelle
  imports Complex_Main
begin

section \<open>The training driver of cnns.py\<close>

text \<open>
  The development embeds the function \<^verbatim>\<open>main\<close> of \<^verbatim>\<open>cnns.py\<close>, its helper
  \<^verbatim>\<open>save_checkpoint\<close> and the one flag of its command line that the properties below
  speak about. Python floats are read as reals: \<^verbatim>\<open>main\<close> itself only compares them and
  divides once. Everything \<^verbatim>\<open>main\<close> calls but does not define (training, evaluation, the
  accountant's routines, the privacy engine's counter, number formatting) is a parameter,
  collected in the record \<open>env\<close>; such calls are taken to return.
\<close>

subsection \<open>Arguments of main\<close>

text \<open>
  The arguments of \<^verbatim>\<open>main\<close> that it inspects itself. The arguments \<^verbatim>\<open>size\<close>, \<^verbatim>\<open>optim\<close>,
  \<^verbatim>\<open>momentum\<close>, \<^verbatim>\<open>nesterov\<close>, \<^verbatim>\<open>max_grad_norm\<close>, \<^verbatim>\<open>num_groups\<close> and \<^verbatim>\<open>device\<close> are only
  handed on to constructors of other modules and are left out.
\<close>

record args =
  dataset :: string
  seed :: int
  augment :: bool
  use_scattering :: bool
  batch_size :: int
  mini_batch_size :: int
  sample_batches :: bool
  lr :: real
  noise_multiplier :: real
  epochs :: int
  input_norm :: "string option"
  bn_noise_multiplier :: "real option"
  max_epsilon :: "real option"
  out_dir :: string
  early_stop :: bool

datatype py_error = AssertionError | ZeroDivisionError | BroadcastError

subsection \<open>Run name, checkpoint path and the parameters given to wandb.init\<close>

fun str_nat :: "nat \<Rightarrow> string" where
  "str_nat n =
     (if n < 10 then [char_of (48 + n)]
      else str_nat (n div 10) @ [char_of (48 + n mod 10)])"

declare str_nat.simps [simp del]

definition str_int :: "int \<Rightarrow> string" where
  "str_int i = (if i < 0 then CHR ''-'' # str_nat (nat (- i)) else str_nat (nat i))"

text \<open>
  \<^verbatim>\<open>pathlib.Path(a) / b\<close>, rendered as a string. The directory is taken as pathlib prints
  it (no trailing separator).
\<close>

definition path_join :: "string \<Rightarrow> string \<Rightarrow> string" where
  "path_join a b = a @ ''/'' @ b"

text \<open>
  Line 37. The parameter \<open>fmt\<close> is Python's formatting of the noise multiplier inside an
  f-string.
\<close>

definition run_name :: "(real \<Rightarrow> string) \<Rightarrow> args \<Rightarrow> string" where
  "run_name fmt a = ''cifar10_scatternet_'' @ fmt (noise_multiplier a)"

definition run_dir :: "(real \<Rightarrow> string) \<Rightarrow> args \<Rightarrow> string" where
  "run_dir fmt a = path_join (out_dir a) (run_name fmt a)"

definition checkpoint_filename :: "(real \<Rightarrow> string) \<Rightarrow> args \<Rightarrow> string" where
  "checkpoint_filename fmt a = path_join (run_dir fmt a) (''model_'' @ str_int (seed a))"

record wandb_config =
  cfg_name :: string
  cfg_out_path :: string
  cfg_dataset :: string
  cfg_seed :: int
  cfg_sigma :: real
  cfg_epochs :: int
  cfg_batch_size :: int
  cfg_lr :: real

record run_params =
  rp_project :: string
  rp_job_type :: string
  rp_group :: string
  rp_config :: wandb_config
  rp_name :: string

definition run_params_of :: "(real \<Rightarrow> string) \<Rightarrow> args \<Rightarrow> run_params" where
  "run_params_of fmt a =
     \<lparr> rp_project = ''multiplicities'',
       rp_job_type = ''train'',
       rp_group = run_name fmt a,
       rp_config =
         \<lparr> cfg_name = run_name fmt a,
           cfg_out_path = checkpoint_filename fmt a,
           cfg_dataset = ''cifar10'',
           cfg_seed = seed a,
           cfg_sigma = noise_multiplier a,
           cfg_epochs = epochs a,
           cfg_batch_size = batch_size a,
           cfg_lr = lr a \<rparr>,
       rp_name = ''model_'' @ str_int (seed a) \<rparr>"

subsection \<open>Batch accumulation and the checks on the configuration\<close>

text \<open>
  Lines 69 to 71. Python's \<^verbatim>\<open>%\<close> and \<^verbatim>\<open>//\<close> on integers are floor division, as \<open>mod\<close>
  and \<open>div\<close> on \<open>int\<close> are, except that a zero divisor raises.
\<close>

definition n_acc_steps_of :: "args \<Rightarrow> py_error + int" where
  "n_acc_steps_of a =
     (let bs = batch_size a in
      if mini_batch_size a = 0 then Inl ZeroDivisionError
      else if bs mod mini_batch_size a \<noteq> 0 then Inl AssertionError
      else Inr (bs div mini_batch_size a))"

text \<open>Lines 74 to 76.\<close>

definition check_sampling :: "args \<Rightarrow> int \<Rightarrow> py_error + unit" where
  "check_sampling a n_acc_steps =
     (if sample_batches a then
        (if n_acc_steps \<noteq> 1 then Inl AssertionError
         else if augment a then Inl AssertionError
         else Inr ())
      else Inr ())"

subsection \<open>The command line\<close>






subsection \<open>What main calls\<close>

record 'sd checkpoint =
  ck_epoch :: nat
  ck_model :: string
  ck_state_dict :: 'sd
  ck_test_acc :: real
  ck_best_acc :: real
  ck_optimizer :: 'sd

type_synonym 'sd files = "string \<rightharpoonup> 'sd checkpoint"

text \<open>
  The type \<open>'m\<close> is everything training changes: the model's parameters, the optimizer and
  the privacy engine attached to it (with the generators they draw from); \<open>'sd\<close> is a
  state dictionary. \<open>initial_model\<close> is that state as lines 116 to 152 build it,
  \<open>len_train_data\<close> is \<^verbatim>\<open>len(train_data)\<close>, \<open>engine_steps\<close> reads
  \<^verbatim>\<open>privacy_engine.steps\<close>, \<open>scatter_normalization_rdp\<close> is the second component of what
  \<^verbatim>\<open>scatter_normalization\<close> returns for the given noise multiplier, and \<open>disk\<close> is the
  content of the checkpoint files when the run starts.
\<close>

record ('m, 'sd) env =
  fmt_float :: "real \<Rightarrow> string"
  len_train_data :: nat
  scatter_normalization_rdp :: "real option \<Rightarrow> real list"
  initial_model :: 'm
  train :: "'m \<Rightarrow> int \<Rightarrow> 'm \<times> real \<times> real"
  test :: "'m \<Rightarrow> real \<times> real"
  engine_steps :: "'m \<Rightarrow> nat"
  get_renyi_divergence :: "real \<Rightarrow> real \<Rightarrow> real list"
  get_privacy_spent :: "real list \<Rightarrow> real \<times> real"
  model_state_dict :: "'m \<Rightarrow> 'sd"
  optimizer_state_dict :: "'m \<Rightarrow> 'sd"
  disk :: "'sd files"

subsection \<open>save_checkpoint\<close>

text \<open>
  Lines 19 to 22: \<^verbatim>\<open>torch.save\<close> writes the file, \<^verbatim>\<open>shutil.copyfile\<close> copies its content
  to the name with \<^verbatim>\<open>_best\<close> appended.
\<close>

definition save_checkpoint :: "'sd checkpoint \<Rightarrow> bool \<Rightarrow> string \<Rightarrow> 'sd files \<Rightarrow> 'sd files" where
  "save_checkpoint state is_best filename fs =
     (let fs1 = fs(filename \<mapsto> state) in
      if is_best then fs1(filename @ ''_best'' := fs1 filename) else fs1)"

subsection \<open>The privacy cost after an epoch\<close>

text \<open>
  \<^verbatim>\<open>rdp_norm\<close> is the Python number 0 or an array; \<^verbatim>\<open>rdp_sgd\<close> is an array. Adding a
  number to an array adds it to every entry; adding two arrays adds them entry by entry
  when the lengths agree, stretches an array of length one, and raises otherwise.
\<close>

datatype nd = Scalar real | Array "real list"

definition np_add :: "nd \<Rightarrow> real list \<Rightarrow> py_error + real list" where
  "np_add x ys =
     (case x of
        Scalar c \<Rightarrow> Inr (map (\<lambda>y. c + y) ys)
      | Array xs \<Rightarrow>
          if length xs = length ys then Inr (map2 (+) xs ys)
          else if length xs = 1 then Inr (map (\<lambda>y. hd xs + y) ys)
          else if length ys = 1 then Inr (map (\<lambda>x. x + hd ys) xs)
          else Inl BroadcastError)"

definition np_scale :: "real list \<Rightarrow> nat \<Rightarrow> real list" where
  "np_scale xs k = map (\<lambda>x. x * real k) xs"

text \<open>Lines 102 to 115.\<close>

definition rdp_norm_of :: "('m, 'sd) env \<Rightarrow> args \<Rightarrow> nd" where
  "rdp_norm_of env a =
     (if input_norm a = Some ''BN''
      then Array (scatter_normalization_rdp env (bn_noise_multiplier a))
      else Scalar 0)"

text \<open>Line 147; main reaches it only with a training set that is not empty.\<close>

definition sample_rate_of :: "('m, 'sd) env \<Rightarrow> args \<Rightarrow> real" where
  "sample_rate_of env a = real_of_int (batch_size a) / real (len_train_data env)"

text \<open>
  Lines 164 to 166. The engine's \<^verbatim>\<open>sample_rate\<close> and \<^verbatim>\<open>noise_multiplier\<close> are the values
  its constructor was given on lines 147 and 149.
\<close>

definition rdp_sgd_of :: "('m, 'sd) env \<Rightarrow> args \<Rightarrow> 'm \<Rightarrow> real list" where
  "rdp_sgd_of env a m =
     np_scale (get_renyi_divergence env (sample_rate_of env a) (noise_multiplier a))
       (engine_steps env m)"

text \<open>Lines 167 and 168: the pair \<^verbatim>\<open>(epsilon, epsilon2)\<close>.\<close>

definition privacy_cost :: "('m, 'sd) env \<Rightarrow> args \<Rightarrow> 'm \<Rightarrow> py_error + real \<times> real" where
  "privacy_cost env a m =
     (let rdp_sgd = rdp_sgd_of env a m in
      case np_add (rdp_norm_of env a) rdp_sgd of
        Inl err \<Rightarrow> Inl err
      | Inr rdp_total \<Rightarrow>
          Inr (fst (get_privacy_spent env rdp_total), fst (get_privacy_spent env rdp_sgd)))"

subsection \<open>One epoch\<close>

record telemetry =
  tm_epoch :: nat
  tm_train_loss :: real
  tm_train_acc :: real
  tm_test_loss :: real
  tm_test_acc :: real
  tm_epsilon :: "real option"

text \<open>
  What a run does that can be seen from outside, in the order it does it: the call of
  \<^verbatim>\<open>wandb.init\<close> (line 57), the construction of the model (lines 116 and 118), the call of
  \<^verbatim>\<open>train\<close> for an epoch (line 160), the print of line 169 with the two numbers it is
  given (the format shows three decimals of them), the call of \<^verbatim>\<open>run.log\<close> (line 176), the
  print of line 194, and the call of \<^verbatim>\<open>save_checkpoint\<close> (line 197) with its arguments.
\<close>

datatype 'sd event =
    Wandb_init run_params
  | Model_built
  | Train_epoch nat
  | Print_eps real real
  | Run_log telemetry
  | Print_plateau
  | Save_checkpoint "'sd checkpoint" bool string

text \<open>The three places where main returns: after the loop, line 172 and line 195.\<close>

datatype stop = Epochs_exhausted | Budget_reached | Plateau

datatype outcome = Raised py_error | Returned stop

text \<open>The variables the loop changes, and the checkpoint files.\<close>

record ('m, 'sd) vars =
  model :: 'm
  best_acc :: real
  flat_count :: nat
  files :: "'sd files"

text \<open>Line 171.\<close>

definition budget_hit :: "args \<Rightarrow> real \<Rightarrow> bool" where
  "budget_hit a epsilon = (case max_epsilon a of None \<Rightarrow> False | Some mx \<Rightarrow> epsilon \<ge> mx)"

text \<open>Lines 188 to 193; the flag says whether line 195 returns.\<close>

definition plateau_step :: "args \<Rightarrow> real \<Rightarrow> ('m, 'sd) vars \<Rightarrow> ('m, 'sd) vars \<times> bool" where
  "plateau_step a test_acc v =
     (if test_acc > best_acc v then (v\<lparr>best_acc := test_acc, flat_count := 0\<rparr>, False)
      else
        (let v' = v\<lparr>flat_count := flat_count v + 1\<rparr>
         in (v', flat_count v' \<ge> 20 \<and> early_stop a)))"

text \<open>Lines 197 to 208.\<close>

definition checkpoint_of :: "('m, 'sd) env \<Rightarrow> nat \<Rightarrow> real \<Rightarrow> ('m, 'sd) vars \<Rightarrow> 'sd checkpoint" where
  "checkpoint_of env epoch test_acc v =
     \<lparr> ck_epoch = epoch + 1,
       ck_model = ''scatternet'',
       ck_state_dict = model_state_dict env (model v),
       ck_test_acc = test_acc,
       ck_best_acc = best_acc v,
       ck_optimizer = optimizer_state_dict env (model v) \<rparr>"

text \<open>Lines 176 to 208: the part of an epoch after the budget check.\<close>

definition finish_epoch ::
  "('m, 'sd) env \<Rightarrow> args \<Rightarrow> nat \<Rightarrow> telemetry \<Rightarrow> ('m, 'sd) vars
     \<Rightarrow> 'sd event list \<times> ('m, 'sd) vars \<times> outcome option" where
  "finish_epoch env a epoch t v =
     (case plateau_step a (tm_test_acc t) v of (v', plateau) \<Rightarrow>
        if plateau then ([Run_log t, Print_plateau], v', Some (Returned Plateau))
        else
          (let ck = checkpoint_of env epoch (tm_test_acc t) v';
               filename = checkpoint_filename (fmt_float env) a
           in ([Run_log t, Save_checkpoint ck True filename],
               v'\<lparr>files := save_checkpoint ck True filename (files v')\<rparr>, None)))"

text \<open>
  Lines 158 to 208. The result is what the epoch did, the variables after it, and the
  outcome of the run if the epoch ended it.
\<close>

definition epoch_body ::
  "('m, 'sd) env \<Rightarrow> args \<Rightarrow> int \<Rightarrow> nat \<Rightarrow> ('m, 'sd) vars
     \<Rightarrow> 'sd event list \<times> ('m, 'sd) vars \<times> outcome option" where
  "epoch_body env a n_acc_steps epoch v =
     (case train env (model v) n_acc_steps of (m, train_loss, train_acc) \<Rightarrow>
      case test env m of (test_loss, test_acc) \<Rightarrow>
      let v1 = v\<lparr>model := m\<rparr>;
          t = \<lambda>epsilon. \<lparr> tm_epoch = epoch, tm_train_loss = train_loss,
                tm_train_acc = train_acc, tm_test_loss = test_loss,
                tm_test_acc = test_acc, tm_epsilon = epsilon \<rparr>
      in
        if noise_multiplier a > 0 then
          (case privacy_cost env a m of
             Inl err \<Rightarrow> ([Train_epoch epoch], v1, Some (Raised err))
           | Inr (epsilon, epsilon2) \<Rightarrow>
               if budget_hit a epsilon
               then ([Train_epoch epoch, Print_eps epsilon epsilon2], v1,
                     Some (Returned Budget_reached))
               else
                 (case finish_epoch env a epoch (t (Some epsilon)) v1 of
                    (evs, v2, out) \<Rightarrow>
                      (Train_epoch epoch # Print_eps epsilon epsilon2 # evs, v2, out)))
        else
          (case finish_epoch env a epoch (t None) v1 of
             (evs, v2, out) \<Rightarrow> (Train_epoch epoch # evs, v2, out)))"

subsection \<open>The loop and main\<close>

text \<open>Line 157, over the epochs that remain.\<close>

fun epoch_loop ::
  "('m, 'sd) env \<Rightarrow> args \<Rightarrow> int \<Rightarrow> nat list \<Rightarrow> ('m, 'sd) vars
     \<Rightarrow> 'sd event list \<times> ('m, 'sd) vars \<times> outcome" where
  "epoch_loop env a n_acc_steps [] v = ([], v, Returned Epochs_exhausted)"
| "epoch_loop env a n_acc_steps (epoch # rest) v =
     (case epoch_body env a n_acc_steps epoch v of
        (evs, v', Some out) \<Rightarrow> (evs, v', out)
      | (evs, v', None) \<Rightarrow>
          (case epoch_loop env a n_acc_steps rest v' of
             (evs', v'', out) \<Rightarrow> (evs @ evs', v'', out)))"

record 'sd result =
  events :: "'sd event list"
  files_after :: "'sd files"
  outcome :: outcome

text \<open>Lines 154 and 155.\<close>

definition initial_vars :: "('m, 'sd) env \<Rightarrow> ('m, 'sd) vars" where
  "initial_vars env =
     \<lparr> model = initial_model env, best_acc = 0, flat_count = 0, files = disk env \<rparr>"

definition main :: "('m, 'sd) env \<Rightarrow> args \<Rightarrow> 'sd result" where
  "main env a =
     (let ev0 = [Wandb_init (run_params_of (fmt_float env) a)] in
      case n_acc_steps_of a of
        Inl err \<Rightarrow> \<lparr> events = ev0, files_after = disk env, outcome = Raised err \<rparr>
      | Inr n_acc_steps \<Rightarrow>
          (case check_sampling a n_acc_steps of
             Inl err \<Rightarrow> \<lparr> events = ev0, files_after = disk env, outcome = Raised err \<rparr>
           | Inr _ \<Rightarrow>
               if len_train_data env = 0
               then \<lparr> events = ev0 @ [Model_built], files_after = disk env,
                      outcome = Raised ZeroDivisionError \<rparr>
               else
                 (case epoch_loop env a n_acc_steps [0..<nat (epochs a)] (initial_vars env) of
                    (evs, v, out) \<Rightarrow>
                      \<lparr> events = ev0 @ [Model_built] @ evs, files_after = files v,
                        outcome = out \<rparr>)))"

text \<open>The state of training after \<open>k\<close> epochs, and what epoch \<open>e\<close> measures.\<close>

definition model_after :: "('m, 'sd) env \<Rightarrow> int \<Rightarrow> nat \<Rightarrow> 'm" where
  "model_after env n_acc_steps k =
     ((\<lambda>m. fst (train env m n_acc_steps)) ^^ k) (initial_model env)"

definition test_acc_at :: "('m, 'sd) env \<Rightarrow> int \<Rightarrow> nat \<Rightarrow> real" where
  "test_acc_at env n_acc_steps e = snd (test env (model_after env n_acc_steps (Suc e)))"

subsection \<open>Accumulated sub-batches and the accountant's step count\<close>

text \<open>
  What the engine counts: the steps it reports to the accountant, the updates of the
  parameters, and the sub-batches accumulated since the last update.
\<close>

record engine =
  accountant_steps :: nat
  param_updates :: nat
  accumulated :: nat

definition fresh_engine :: engine where
  "fresh_engine = \<lparr> accountant_steps = 0, param_updates = 0, accumulated = 0 \<rparr>"

text \<open>
  Modelled from the spec: the function \<^verbatim>\<open>train\<close> of the module \<^verbatim>\<open>train_utils\<close> and the
  step of the privacy engine are not part of the sources at hand. The spec (4.3, steps 5
  and 6): the gradients of the physical sub-batches of a logical batch are summed, and only
  once per logical batch the sum is normalized and handed to the base optimizer for a
  single parameter update, which increments the step counter used by the accountant.
\<close>

definition sub_batch :: "int \<Rightarrow> engine \<Rightarrow> engine" where
  "sub_batch n_acc_steps s =
     (if n_acc_steps \<le> int (accumulated s) + 1
      then \<lparr> accountant_steps = accountant_steps s + 1,
             param_updates = param_updates s + 1,
             accumulated = 0 \<rparr>
      else s\<lparr>accumulated := accumulated s + 1\<rparr>)"

text \<open>
  Modelled from the spec: one pass of \<^verbatim>\<open>train\<close> over \<open>k\<close> physical sub-batches (4.4, each
  epoch runs the sub-batches one after the other).
\<close>

definition sub_batches :: "int \<Rightarrow> nat \<Rightarrow> engine \<Rightarrow> engine" where
  "sub_batches n_acc_steps k s = (sub_batch n_acc_steps ^^ k) s"

subsection \<open>A held-out accuracy that peaks\<close>


subsection \<open>Reading a run\<close>

text \<open>The states handed to \<^verbatim>\<open>save_checkpoint\<close> during a run, in order.\<close>

fun saved_checkpoints :: "'sd event list \<Rightarrow> 'sd checkpoint list" where
  "saved_checkpoints [] = []"
| "saved_checkpoints (Save_checkpoint ck is_best filename # evs) = ck # saved_checkpoints evs"
| "saved_checkpoints (ev # evs) = saved_checkpoints evs"

text \<open>The best held-out accuracy over the first \<open>k\<close> epochs, starting from line 154.\<close>

definition best_acc_before :: "(nat \<Rightarrow> real) \<Rightarrow> nat \<Rightarrow> real" where
  "best_acc_before acc k = Max (insert 0 (acc ` set [0..<k]))"

subsection \<open>A small run\<close>

text \<open>
  A stand-in for the collaborators, to run main on: the training state is the number of
  epochs trained, each epoch takes five steps, the accuracy rises to 2 and stays there, and
  the privacy spent is the sum of the vector.
\<close>

definition example_env :: "(nat, nat) env" where
  "example_env =
     \<lparr> fmt_float = (\<lambda>_. ''1.0''),
       len_train_data = 100,
       scatter_normalization_rdp = (\<lambda>_. [1, 2]),
       initial_model = 0,
       train = (\<lambda>m n. (Suc m, 0, 0)),
       test = (\<lambda>m. (0, if m < 3 then real m else 2)),
       engine_steps = (\<lambda>m. m * 5),
       get_renyi_divergence = (\<lambda>sample_rate sigma. [sample_rate, sigma]),
       get_privacy_spent = (\<lambda>rdp. (sum_list rdp, 0)),
       model_state_dict = (\<lambda>m. m),
       optimizer_state_dict = (\<lambda>m. m + 100),
       disk = Map.empty \<rparr>"

definition example_args :: args where
  "example_args =
     \<lparr> dataset = ''mnist'', seed = 0, augment = False, use_scattering = True,
       batch_size = 20, mini_batch_size = 10, sample_batches = False, lr = 1,
       noise_multiplier = 1, epochs = 4, input_norm = None, bn_noise_multiplier = None,
       max_epsilon = None, out_dir = ''out'', early_stop = True \<rparr>"

section \<open>Auxiliary facts\<close>

subsection \<open>The ways an epoch can go\<close>

text \<open>
  An epoch ends in one of four ways: the sum of the two costs cannot be formed, the budget
  is reached, the plateau rule returns, or the state is saved and the loop goes on.
\<close>

lemma finish_epoch_cases:
  assumes "finish_epoch env a e t v = (evs, v', out)"
  obtains
    (plateau) "early_stop a" "\<not> best_acc v < tm_test_acc t" "19 \<le> flat_count v"
      "evs = [Run_log t, Print_plateau]" "out = Some (Returned Plateau)"
      "v' = v\<lparr>flat_count := flat_count v + 1\<rparr>"
  | (improved) "best_acc v < tm_test_acc t"
      "evs = [Run_log t, Save_checkpoint (checkpoint_of env e (tm_test_acc t) (v\<lparr>best_acc := tm_test_acc t, flat_count := 0\<rparr>)) True
                (checkpoint_filename (fmt_float env) a)]"
      "out = None"
      "v' = v\<lparr>best_acc := tm_test_acc t, flat_count := 0,
              files := save_checkpoint (checkpoint_of env e (tm_test_acc t) (v\<lparr>best_acc := tm_test_acc t, flat_count := 0\<rparr>)) True
                (checkpoint_filename (fmt_float env) a) (files v)\<rparr>"
  | (flat) "\<not> best_acc v < tm_test_acc t" "flat_count v < 19 \<or> \<not> early_stop a"
      "evs = [Run_log t, Save_checkpoint (checkpoint_of env e (tm_test_acc t) (v\<lparr>flat_count := flat_count v + 1\<rparr>)) True
                (checkpoint_filename (fmt_float env) a)]"
      "out = None"
      "v' = v\<lparr>flat_count := flat_count v + 1,
              files := save_checkpoint (checkpoint_of env e (tm_test_acc t) (v\<lparr>flat_count := flat_count v + 1\<rparr>)) True
                (checkpoint_filename (fmt_float env) a) (files v)\<rparr>"
  using assms
  by (auto simp: finish_epoch_def plateau_step_def Let_def split: if_splits)


lemma epoch_body_cases:
  assumes "epoch_body env a n e v = (evs, v', out)"
  obtains
    (error) err where "0 < noise_multiplier a"
      "privacy_cost env a (fst (train env (model v) n)) = Inl err"
      "evs = [Train_epoch e]" "out = Some (Raised err)"
      "v' = v\<lparr>model := fst (train env (model v) n)\<rparr>"
  | (budget) eps eps2 where "0 < noise_multiplier a"
      "privacy_cost env a (fst (train env (model v) n)) = Inr (eps, eps2)"
      "budget_hit a eps"
      "evs = [Train_epoch e, Print_eps eps eps2]" "out = Some (Returned Budget_reached)"
      "v' = v\<lparr>model := fst (train env (model v) n)\<rparr>"
  | (noisy) eps eps2 t fevs where "0 < noise_multiplier a"
      "privacy_cost env a (fst (train env (model v) n)) = Inr (eps, eps2)"
      "\<not> budget_hit a eps"
      "tm_epoch t = e" "tm_test_acc t = snd (test env (fst (train env (model v) n)))"
      "tm_epsilon t = Some eps"
      "finish_epoch env a e t (v\<lparr>model := fst (train env (model v) n)\<rparr>) = (fevs, v', out)"
      "evs = Train_epoch e # Print_eps eps eps2 # fevs"
  | (plain) t fevs where "\<not> 0 < noise_multiplier a"
      "tm_epoch t = e" "tm_test_acc t = snd (test env (fst (train env (model v) n)))"
      "tm_epsilon t = None"
      "finish_epoch env a e t (v\<lparr>model := fst (train env (model v) n)\<rparr>) = (fevs, v', out)"
      "evs = Train_epoch e # fevs"
proof -
  obtain m tl ta where tr: "train env (model v) n = (m, tl, ta)"
    by (cases "train env (model v) n")
  obtain sl sa where te: "test env m = (sl, sa)"
    by (cases "test env m")
  define t where "t = (\<lambda>epsilon. \<lparr> tm_epoch = e, tm_train_loss = tl, tm_train_acc = ta,
    tm_test_loss = sl, tm_test_acc = sa, tm_epsilon = epsilon \<rparr>)"
  have m: "fst (train env (model v) n) = m" and sa: "snd (test env m) = sa"
    by (simp_all add: tr te)
  have t: "tm_epoch (t x) = e" "tm_test_acc (t x) = sa" "tm_epsilon (t x) = x" for x
    by (simp_all add: t_def)
  show ?thesis
  proof (cases "0 < noise_multiplier a")
    case False
    obtain fevs where f: "finish_epoch env a e (t None) (v\<lparr>model := m\<rparr>) = (fevs, v', out)"
      and evs: "evs = Train_epoch e # fevs"
      using assms False
      by (auto simp: epoch_body_def tr te t_def split: prod.splits)
    show ?thesis
      by (rule plain [of "t None" fevs]) (simp_all add: False m sa t f evs)
  next
    case nm: True
    show ?thesis
    proof (cases "privacy_cost env a m")
      case (Inl err)
      with assms nm have "evs = [Train_epoch e]" "out = Some (Raised err)" "v' = v\<lparr>model := m\<rparr>"
        by (auto simp: epoch_body_def tr te)
      then show ?thesis
        by (intro error [of err]) (simp_all add: nm m Inl)
    next
      case (Inr p)
      obtain eps eps2 where p: "p = (eps, eps2)" by (cases p)
      show ?thesis
      proof (cases "budget_hit a eps")
        case True
        with assms nm Inr p
        have "evs = [Train_epoch e, Print_eps eps eps2]" "out = Some (Returned Budget_reached)"
          "v' = v\<lparr>model := m\<rparr>"
          by (auto simp: epoch_body_def tr te)
        then show ?thesis
          by (intro budget [of eps eps2]) (simp_all add: nm m Inr p True)
      next
        case False
        obtain fevs where f: "finish_epoch env a e (t (Some eps)) (v\<lparr>model := m\<rparr>) = (fevs, v', out)"
          and evs: "evs = Train_epoch e # Print_eps eps eps2 # fevs"
          using assms nm Inr p False
          by (auto simp: epoch_body_def tr te t_def split: prod.splits)
        show ?thesis
          by (rule noisy [of eps eps2 "t (Some eps)" fevs]) (simp_all add: nm m sa t f evs Inr p False)
      qed
    qed
  qed
qed


subsection \<open>The loop, one epoch at a time\<close>

lemma epoch_loop_cases:
  assumes "epoch_loop env a n es v = (evs, v', out)"
  obtains
    (finished) "es = []" "evs = []" "v' = v" "out = Returned Epochs_exhausted"
  | (stopped) e rest where "es = e # rest" "epoch_body env a n e v = (evs, v', Some out)"
  | (continued) e rest bevs v1 revs where "es = e # rest"
      "epoch_body env a n e v = (bevs, v1, None)"
      "epoch_loop env a n rest v1 = (revs, v', out)" "evs = bevs @ revs"
  using assms
  by (cases es) (auto split: prod.splits option.splits)

lemma epoch_loop_invariant:
  assumes body: "\<And>e v evs v' out. epoch_body env a n e v = (evs, v', out)
      \<Longrightarrow> (\<forall>ev \<in> set evs. P ev) \<and> (\<forall>r. out = Some r \<longrightarrow> Q r)"
    and fin: "Q (Returned Epochs_exhausted)"
    and loop: "epoch_loop env a n es v = (evs, v', out)"
  shows "(\<forall>ev \<in> set evs. P ev) \<and> Q out"
  using loop
proof (induction es arbitrary: v evs v' out)
  case Nil
  then show ?case using fin by simp
next
  case (Cons e rest)
  from Cons.prems show ?case
  proof (cases rule: epoch_loop_cases)
    case finished
    then show ?thesis by simp
  next
    case (stopped e' rest')
    with body [of e v evs v' "Some out"] show ?thesis by simp
  next
    case (continued e' rest' bevs v1 revs)
    with body [of e v bevs v1 None] Cons.IH [of v1 revs v' out] show ?thesis by auto
  qed
qed


lemma epoch_body_outcomes:
  assumes "epoch_body env a n e v = (evs, v', out)"
  obtains
    (error) err where "0 < noise_multiplier a"
      "privacy_cost env a (fst (train env (model v) n)) = Inl err"
      "evs = [Train_epoch e]" "out = Some (Raised err)"
      "model v' = fst (train env (model v) n)"
  | (budget) eps eps2 where "0 < noise_multiplier a"
      "privacy_cost env a (fst (train env (model v) n)) = Inr (eps, eps2)"
      "budget_hit a eps"
      "evs = [Train_epoch e, Print_eps eps eps2]" "out = Some (Returned Budget_reached)"
      "model v' = fst (train env (model v) n)"
  | (plateau) pre t where
      "evs = Train_epoch e # pre @ [Run_log t, Print_plateau]" "out = Some (Returned Plateau)"
      "early_stop a" "\<not> best_acc v < tm_test_acc t" "19 \<le> flat_count v"
      "model v' = fst (train env (model v) n)"
      "tm_epoch t = e" "tm_test_acc t = snd (test env (fst (train env (model v) n)))"
      "(0 < noise_multiplier a \<and> (\<exists>eps eps2. pre = [Print_eps eps eps2] \<and> tm_epsilon t = Some eps
           \<and> privacy_cost env a (fst (train env (model v) n)) = Inr (eps, eps2) \<and> \<not> budget_hit a eps))
       \<or> (\<not> 0 < noise_multiplier a \<and> pre = [] \<and> tm_epsilon t = None)"
  | (saved) pre t ck where
      "evs = Train_epoch e # pre @ [Run_log t, Save_checkpoint ck True (checkpoint_filename (fmt_float env) a)]"
      "out = None"
      "best_acc v < tm_test_acc t \<or> flat_count v < 19 \<or> \<not> early_stop a"
      "model v' = fst (train env (model v) n)"
      "best_acc v' = (if best_acc v < tm_test_acc t then tm_test_acc t else best_acc v)"
      "flat_count v' = (if best_acc v < tm_test_acc t then 0 else flat_count v + 1)"
      "files v' = save_checkpoint ck True (checkpoint_filename (fmt_float env) a) (files v)"
      "ck = checkpoint_of env e (tm_test_acc t) v'"
      "tm_epoch t = e" "tm_test_acc t = snd (test env (fst (train env (model v) n)))"
      "(0 < noise_multiplier a \<and> (\<exists>eps eps2. pre = [Print_eps eps eps2] \<and> tm_epsilon t = Some eps
           \<and> privacy_cost env a (fst (train env (model v) n)) = Inr (eps, eps2) \<and> \<not> budget_hit a eps))
       \<or> (\<not> 0 < noise_multiplier a \<and> pre = [] \<and> tm_epsilon t = None)"
  using assms
proof (cases rule: epoch_body_cases)
  case (error err)
  then show ?thesis by (intro that(1) [of err]) simp_all
next
  case (budget eps eps2)
  then show ?thesis by (intro that(2) [of eps eps2]) simp_all
next
  case (noisy eps eps2 t fevs)
  from noisy(7) show ?thesis
  proof (cases rule: finish_epoch_cases)
    case plateau
    show ?thesis
      by (rule that(3) [of "[Print_eps eps eps2]" t]) (use noisy plateau in \<open>simp_all\<close>)
  next
    case improved
    show ?thesis
      by (rule that(4) [of "[Print_eps eps eps2]" t "checkpoint_of env e (tm_test_acc t) v'"])
        (use noisy improved in \<open>simp_all add: checkpoint_of_def\<close>)
  next
    case flat
    show ?thesis
      by (rule that(4) [of "[Print_eps eps eps2]" t "checkpoint_of env e (tm_test_acc t) v'"])
        (use noisy flat in \<open>simp_all add: checkpoint_of_def\<close>)
  qed
next
  case (plain t fevs)
  from plain(5) show ?thesis
  proof (cases rule: finish_epoch_cases)
    case plateau
    show ?thesis
      by (rule that(3) [of "[]" t]) (use plain plateau in \<open>simp_all\<close>)
  next
    case improved
    show ?thesis
      by (rule that(4) [of "[]" t "checkpoint_of env e (tm_test_acc t) v'"])
        (use plain improved in \<open>simp_all add: checkpoint_of_def\<close>)
  next
    case flat
    show ?thesis
      by (rule that(4) [of "[]" t "checkpoint_of env e (tm_test_acc t) v'"])
        (use plain flat in \<open>simp_all add: checkpoint_of_def\<close>)
  qed
qed


lemma epoch_body_train_event:
  assumes "epoch_body env a n e v = (evs, v', out)"
  shows "Train_epoch e \<in> set evs" and "Train_epoch e' \<in> set evs \<Longrightarrow> e' = e"
    and "model v' = fst (train env (model v) n)"
proof -
  from assms show "Train_epoch e \<in> set evs"
    by (cases rule: epoch_body_outcomes) simp_all
  from assms show "model v' = fst (train env (model v) n)"
    by (cases rule: epoch_body_outcomes) simp_all
  assume "Train_epoch e' \<in> set evs"
  with assms show "e' = e"
    by (cases rule: epoch_body_outcomes) auto
qed

lemma epoch_body_not_exhausted:
  assumes "epoch_body env a n e v = (evs, v', Some out)"
  shows "out \<noteq> Returned Epochs_exhausted"
  using assms by (cases rule: epoch_body_outcomes) simp_all

lemma epoch_body_saves:
  assumes "epoch_body env a n e v = (evs, v', out)" and "Save_checkpoint ck b f \<in> set evs"
  shows "b \<and> f = checkpoint_filename (fmt_float env) a"
  using assms by (cases rule: epoch_body_outcomes) auto


lemma epoch_body_no_noise:
  assumes "epoch_body env a n e v = (evs, v', out)" and "\<not> 0 < noise_multiplier a"
  shows "(\<forall>ev \<in> set evs. (\<forall>eps eps2. ev \<noteq> Print_eps eps eps2) \<and> (\<forall>t. ev = Run_log t \<longrightarrow> tm_epsilon t = None))
     \<and> (\<forall>r. out = Some r \<longrightarrow> r = Returned Plateau)"
  using assms by (cases rule: epoch_body_outcomes) auto

lemma epoch_loop_train_events:
  assumes "epoch_loop env a n es v = (evs, v', out)"
  shows "Train_epoch e \<in> set evs \<Longrightarrow> e \<in> set es"
    and "out = Returned Epochs_exhausted \<Longrightarrow> e \<in> set es \<Longrightarrow> Train_epoch e \<in> set evs"
  using assms
proof (induction es arbitrary: v evs v' out)
  case Nil
  { case 1 then show ?case by simp }
  { case 2 then show ?case by simp }
next
  case (Cons x rest)
  { case 1
    from 1(2) show ?case
    proof (cases rule: epoch_loop_cases)
      case finished
      then show ?thesis by simp
    next
      case (stopped e' rest')
      with 1(1) epoch_body_train_event(2) [of env a n e' v evs v' "Some out" e]
      show ?thesis by simp
    next
      case (continued e' rest' bevs v1 revs)
      with 1(1) epoch_body_train_event(2) [of env a n e' v bevs v1 None e]
        Cons.IH(1) [of revs v1 v' out]
      show ?thesis by auto
    qed }
  { case 2
    from 2(3) show ?case
    proof (cases rule: epoch_loop_cases)
      case finished
      then show ?thesis by simp
    next
      case (stopped e' rest')
      with 2(1) epoch_body_not_exhausted [of env a n e' v evs v' out]
      show ?thesis by simp
    next
      case (continued e' rest' bevs v1 revs)
      with 2(1,2) epoch_body_train_event(1) [of env a n e' v bevs v1 None]
        Cons.IH(2) [of out v1 revs v']
      show ?thesis by auto
    qed }
qed

subsection \<open>The ways a run can go\<close>

lemma main_cases:
  obtains
    (config_error) err where "outcome (main env a) = Raised err"
      "events (main env a) = [Wandb_init (run_params_of (fmt_float env) a)]"
      "files_after (main env a) = disk env"
      "n_acc_steps_of a = Inl err \<or> (\<exists>n. n_acc_steps_of a = Inr n \<and> check_sampling a n = Inl err)"
  | (no_data) n where "n_acc_steps_of a = Inr n" "check_sampling a n = Inr ()"
      "len_train_data env = 0" "outcome (main env a) = Raised ZeroDivisionError"
      "events (main env a) = [Wandb_init (run_params_of (fmt_float env) a), Model_built]"
      "files_after (main env a) = disk env"
  | (trained) n evs v out where "n_acc_steps_of a = Inr n" "check_sampling a n = Inr ()"
      "len_train_data env \<noteq> 0"
      "epoch_loop env a n [0..<nat (epochs a)] (initial_vars env) = (evs, v, out)"
      "events (main env a) = Wandb_init (run_params_of (fmt_float env) a) # Model_built # evs"
      "files_after (main env a) = files v" "outcome (main env a) = out"
proof (cases "n_acc_steps_of a")
  case (Inl err)
  then show ?thesis by (intro config_error [of err]) (simp_all add: main_def)
next
  case (Inr n)
  show ?thesis
  proof (cases "check_sampling a n")
    case (Inl err)
    with Inr show ?thesis by (intro config_error [of err]) (simp_all add: main_def)
  next
    case chk: (Inr u)
    show ?thesis
    proof (cases "len_train_data env = 0")
      case True
      with Inr chk show ?thesis by (intro no_data [of n]) (simp_all add: main_def)
    next
      case False
      obtain evs v out
        where loop: "epoch_loop env a n [0..<nat (epochs a)] (initial_vars env) = (evs, v, out)"
        by (cases "epoch_loop env a n [0..<nat (epochs a)] (initial_vars env)")
      with Inr chk False show ?thesis
        by (intro trained [of n evs v out]) (simp_all add: main_def)
    qed
  qed
qed

subsection \<open>Accumulation steps\<close>

lemma div_one_mod_zero:
  fixes b m :: int
  assumes "b mod m = 0" "b div m = 1"
  shows "b = m"
proof -
  have "b = m * (b div m) + b mod m" by simp
  with assms show ?thesis by simp
qed

lemma sub_batches_count:
  assumes "0 < n"
  shows "accountant_steps (sub_batches (int n) k fresh_engine) = k div n
    \<and> param_updates (sub_batches (int n) k fresh_engine) = k div n
    \<and> accumulated (sub_batches (int n) k fresh_engine) = k mod n"
proof (induction k)
  case 0
  then show ?case by (simp add: sub_batches_def fresh_engine_def)
next
  case (Suc k)
  have step: "sub_batches (int n) (Suc k) fresh_engine
      = sub_batch (int n) (sub_batches (int n) k fresh_engine)"
    by (simp add: sub_batches_def)
  show ?case
  proof (cases "Suc (k mod n) = n")
    case True
    then have "Suc k mod n = 0" by (simp add: mod_Suc)
    with True Suc show ?thesis
      unfolding step by (simp add: sub_batch_def div_Suc)
  next
    case False
    with assms have lt: "Suc (k mod n) < n"
      by (metis Suc_lessI mod_less_divisor)
    from False have "Suc k mod n = Suc (k mod n)" by (simp add: mod_Suc)
    with lt Suc show ?thesis
      unfolding step by (simp add: sub_batch_def div_Suc)
  qed
qed

lemma sub_batches_lockstep:
  "accountant_steps (sub_batches n k fresh_engine) = param_updates (sub_batches n k fresh_engine)"
proof (induction k)
  case 0
  then show ?case by (simp add: sub_batches_def fresh_engine_def)
next
  case (Suc k)
  then show ?case by (simp add: sub_batches_def sub_batch_def)
qed

subsection \<open>Facts that hold for every event of a run\<close>


lemma main_first_event:
  "hd (events (main env a)) = Wandb_init (run_params_of (fmt_float env) a)"
  by (cases rule: main_cases [of env a]) simp_all

lemma main_saves:
  assumes "Save_checkpoint ck b f \<in> set (events (main env a))"
  shows "b \<and> f = checkpoint_filename (fmt_float env) a"
proof (cases rule: main_cases [of env a])
  case (config_error err)
  with assms show ?thesis by simp
next
  case (no_data n)
  with assms show ?thesis by simp
next
  case (trained n evs v out)
  have "(\<forall>ev \<in> set evs. \<forall>ck b f. ev = Save_checkpoint ck b f \<longrightarrow> b \<and> f = checkpoint_filename (fmt_float env) a) \<and> True"
  proof (rule epoch_loop_invariant [OF _ _ trained(4)])
    fix e v evs v' out
    assume "epoch_body env a n e v = (evs, v', out)"
    from epoch_body_saves [OF this]
    show "(\<forall>ev\<in>set evs. \<forall>ck b f. ev = Save_checkpoint ck b f \<longrightarrow> b \<and> f = checkpoint_filename (fmt_float env) a)
       \<and> (\<forall>r. out = Some r \<longrightarrow> True)"
      by blast
  qed simp
  with trained assms show ?thesis by auto
qed

lemma main_no_noise:
  assumes "\<not> 0 < noise_multiplier a"
  shows "(\<forall>ev \<in> set (events (main env a)).
            (\<forall>eps eps2. ev \<noteq> Print_eps eps eps2) \<and> (\<forall>t. ev = Run_log t \<longrightarrow> tm_epsilon t = None))"
    and "outcome (main env a) = Returned Plateau
       \<or> (outcome (main env a) = Returned Epochs_exhausted
            \<and> (\<forall>e < nat (epochs a). Train_epoch e \<in> set (events (main env a))))
       \<or> ((\<exists>err. outcome (main env a) = Raised err)
            \<and> (\<forall>e. Train_epoch e \<notin> set (events (main env a))))"
proof -
  let ?P = "\<lambda>ev. (\<forall>eps eps2. ev \<noteq> Print_eps eps eps2) \<and> (\<forall>t. ev = Run_log t \<longrightarrow> tm_epsilon t = None)"
  let ?Q = "\<lambda>r. r = Returned Plateau \<or> r = Returned Epochs_exhausted"
  have loop: "(\<forall>ev \<in> set evs. ?P ev) \<and> ?Q out"
    if "epoch_loop env a n es v = (evs, v', out)" for n es v evs v' out
  proof (rule epoch_loop_invariant [OF _ _ that])
    fix e v evs v' out
    assume "epoch_body env a n e v = (evs, v', out)"
    from epoch_body_no_noise [OF this assms]
    show "(\<forall>ev\<in>set evs. ?P ev) \<and> (\<forall>r. out = Some r \<longrightarrow> ?Q r)"
      by blast
  qed simp
  show "\<forall>ev \<in> set (events (main env a)). ?P ev"
  proof (cases rule: main_cases [of env a])
    case (config_error err)
    then show ?thesis by simp
  next
    case (no_data n)
    then show ?thesis by simp
  next
    case (trained n evs v out)
    with loop [OF trained(4)] show ?thesis by simp
  qed
  show "outcome (main env a) = Returned Plateau
       \<or> (outcome (main env a) = Returned Epochs_exhausted
            \<and> (\<forall>e < nat (epochs a). Train_epoch e \<in> set (events (main env a))))
       \<or> ((\<exists>err. outcome (main env a) = Raised err)
            \<and> (\<forall>e. Train_epoch e \<notin> set (events (main env a))))"
  proof (cases rule: main_cases [of env a])
    case (config_error err)
    then show ?thesis by simp
  next
    case (no_data n)
    then show ?thesis by simp
  next
    case (trained n evs v out)
    from loop [OF trained(4)] have "out = Returned Plateau \<or> out = Returned Epochs_exhausted"
      by simp
    then show ?thesis
    proof
      assume "out = Returned Plateau"
      with trained show ?thesis by simp
    next
      assume ex: "out = Returned Epochs_exhausted"
      have "Train_epoch e \<in> set evs" if "e < nat (epochs a)" for e
        using epoch_loop_train_events(2) [OF trained(4) ex, of e] that by simp
      with trained ex show ?thesis by simp
    qed
  qed
qed

subsection \<open>The loop over a range of epochs\<close>

lemma model_after_Suc:
  "model_after env n (Suc k) = fst (train env (model_after env n k) n)"
  by (simp add: model_after_def)

lemma epoch_loop_upt_cases:
  assumes "epoch_loop env a n [e0..<k] v = (evs, v', out)"
  obtains
    (finished) "k \<le> e0" "evs = []" "v' = v" "out = Returned Epochs_exhausted"
  | (stopped) "e0 < k" "epoch_body env a n e0 v = (evs, v', Some out)"
  | (continued) bevs v1 revs where "e0 < k"
      "epoch_body env a n e0 v = (bevs, v1, None)"
      "epoch_loop env a n [Suc e0..<k] v1 = (revs, v', out)" "evs = bevs @ revs"
proof (cases "e0 < k")
  case False
  with assms finished show ?thesis by simp
next
  case True
  then have upt: "[e0..<k] = e0 # [Suc e0..<k]" by (rule upt_conv_Cons)
  from assms [unfolded upt] show ?thesis
  proof (cases rule: epoch_loop_cases)
    case finished
    then show ?thesis by simp
  next
    case (stopped e rest)
    with True show ?thesis by (intro that(2)) auto
  next
    case (continued e rest bevs v1 revs)
    with True show ?thesis by (intro that(3) [of bevs v1 revs]) auto
  qed
qed

subsection \<open>Checkpoint files\<close>

lemma saved_checkpoints_append:
  "saved_checkpoints (xs @ ys) = saved_checkpoints xs @ saved_checkpoints ys"
  by (induction xs rule: saved_checkpoints.induct) simp_all

lemma save_checkpoint_best:
  "save_checkpoint ck True f fs = fs(f \<mapsto> ck, f @ ''_best'' \<mapsto> ck)"
  by (simp add: save_checkpoint_def Let_def)

lemma save_checkpoint_twice:
  "(fs(f \<mapsto> c, f @ ''_best'' \<mapsto> c))(f \<mapsto> ck, f @ ''_best'' \<mapsto> ck) = fs(f \<mapsto> ck, f @ ''_best'' \<mapsto> ck)"
  by (rule ext) simp

lemma epoch_body_files:
  assumes "epoch_body env a n e v = (evs, v', out)"
  shows "(saved_checkpoints evs = [] \<and> files v' = files v)
     \<or> (\<exists>ck. saved_checkpoints evs = [ck] \<and> out = None
          \<and> files v' = (files v)(checkpoint_filename (fmt_float env) a \<mapsto> ck,
                checkpoint_filename (fmt_float env) a @ ''_best'' \<mapsto> ck))"
  using assms
proof (cases rule: epoch_body_cases)
  case (error err)
  then show ?thesis by simp
next
  case (budget eps eps2)
  then show ?thesis by simp
next
  case (noisy eps eps2 t fevs)
  from noisy(7) show ?thesis
    by (cases rule: finish_epoch_cases) (simp_all add: noisy(8) save_checkpoint_best)
next
  case (plain t fevs)
  from plain(5) show ?thesis
    by (cases rule: finish_epoch_cases) (simp_all add: plain(6) save_checkpoint_best)
qed

lemma epoch_loop_files:
  assumes "epoch_loop env a n es v = (evs, v', out)"
  shows "files v' =
    (if saved_checkpoints evs = [] then files v
     else (files v)(checkpoint_filename (fmt_float env) a \<mapsto> last (saved_checkpoints evs),
                checkpoint_filename (fmt_float env) a @ ''_best'' \<mapsto> last (saved_checkpoints evs)))"
  using assms
proof (induction es arbitrary: v evs v' out)
  case Nil
  then show ?case by simp
next
  case (Cons x rest)
  from Cons.prems show ?case
  proof (cases rule: epoch_loop_cases)
    case finished
    then show ?thesis by simp
  next
    case (stopped e rest')
    from epoch_body_files [OF stopped(2)] show ?thesis by auto
  next
    case (continued e rest' bevs v1 revs)
    from epoch_body_files [OF continued(2)] Cons.IH [of v1 revs v' out] continued
    show ?thesis
      by (auto simp: saved_checkpoints_append save_checkpoint_twice)
  qed
qed

subsection \<open>The variables at the start of an epoch\<close>

lemma best_acc_before_0: "best_acc_before acc 0 = 0"
  by (simp add: best_acc_before_def)

lemma best_acc_before_Suc:
  "best_acc_before acc (Suc k) = max (best_acc_before acc k) (acc k)"
proof -
  have "insert 0 (acc ` set [0..<Suc k]) = insert (acc k) (insert 0 (acc ` set [0..<k]))"
    by auto
  then show ?thesis
    by (simp add: best_acc_before_def max.commute del: upt_Suc set_upt)
qed

lemma epoch_body_at:
  assumes body: "epoch_body env a n e v = (evs, v', out)"
    and m: "model v = model_after env n e"
  obtains
    (error) err where "0 < noise_multiplier a"
      "privacy_cost env a (model_after env n (Suc e)) = Inl err"
      "evs = [Train_epoch e]" "out = Some (Raised err)"
  | (budget) eps eps2 where "0 < noise_multiplier a"
      "privacy_cost env a (model_after env n (Suc e)) = Inr (eps, eps2)"
      "budget_hit a eps"
      "evs = [Train_epoch e, Print_eps eps eps2]" "out = Some (Returned Budget_reached)"
  | (plateau) pre t where
      "evs = Train_epoch e # pre @ [Run_log t, Print_plateau]" "out = Some (Returned Plateau)"
      "early_stop a" "test_acc_at env n e \<le> best_acc v" "19 \<le> flat_count v"
      "tm_epoch t = e" "tm_test_acc t = test_acc_at env n e"
      "(0 < noise_multiplier a \<and> (\<exists>eps eps2. pre = [Print_eps eps eps2] \<and> tm_epsilon t = Some eps
           \<and> privacy_cost env a (model_after env n (Suc e)) = Inr (eps, eps2) \<and> \<not> budget_hit a eps))
       \<or> (\<not> 0 < noise_multiplier a \<and> pre = [] \<and> tm_epsilon t = None)"
  | (saved) pre t where
      "evs = Train_epoch e # pre @ [Run_log t,
         Save_checkpoint
           \<lparr> ck_epoch = Suc e, ck_model = ''scatternet'',
             ck_state_dict = model_state_dict env (model_after env n (Suc e)),
             ck_test_acc = test_acc_at env n e,
             ck_best_acc = max (best_acc v) (test_acc_at env n e),
             ck_optimizer = optimizer_state_dict env (model_after env n (Suc e)) \<rparr>
           True (checkpoint_filename (fmt_float env) a)]"
      "out = None"
      "best_acc v < test_acc_at env n e \<or> flat_count v < 19 \<or> \<not> early_stop a"
      "model v' = model_after env n (Suc e)"
      "best_acc v' = max (best_acc v) (test_acc_at env n e)"
      "flat_count v' = (if best_acc v < test_acc_at env n e then 0 else flat_count v + 1)"
      "tm_epoch t = e" "tm_test_acc t = test_acc_at env n e"
      "(0 < noise_multiplier a \<and> (\<exists>eps eps2. pre = [Print_eps eps eps2] \<and> tm_epsilon t = Some eps
           \<and> privacy_cost env a (model_after env n (Suc e)) = Inr (eps, eps2) \<and> \<not> budget_hit a eps))
       \<or> (\<not> 0 < noise_multiplier a \<and> pre = [] \<and> tm_epsilon t = None)"
proof -
  have tr: "fst (train env (model v) n) = model_after env n (Suc e)"
    by (simp add: m model_after_Suc)
  have acc: "snd (test env (model_after env n (Suc e))) = test_acc_at env n e"
    by (simp add: test_acc_at_def)
  from body show ?thesis
  proof (cases rule: epoch_body_outcomes)
    case (error err)
    then show ?thesis by (intro that(1) [of err]) (simp_all add: tr)
  next
    case (budget eps eps2)
    then show ?thesis by (intro that(2) [of eps eps2]) (simp_all add: tr)
  next
    case (plateau pre t)
    then show ?thesis by (intro that(3) [of pre t]) (simp_all add: tr acc)
  next
    case (saved pre t ck)
    from saved(4,5,8,10) have ck: "ck = \<lparr> ck_epoch = Suc e, ck_model = ''scatternet'',
             ck_state_dict = model_state_dict env (model_after env n (Suc e)),
             ck_test_acc = test_acc_at env n e,
             ck_best_acc = max (best_acc v) (test_acc_at env n e),
             ck_optimizer = optimizer_state_dict env (model_after env n (Suc e)) \<rparr>"
      by (simp add: checkpoint_of_def tr acc max_def)
    from saved show ?thesis
      unfolding ck by (intro that(4) [of pre t]) (simp_all add: tr acc max_def)
  qed
qed

lemma epoch_loop_checkpoints:
  assumes "epoch_loop env a n [e0..<k] v = (evs, v', out)"
    and "model v = model_after env n e0"
    and "best_acc v = best_acc_before (test_acc_at env n) e0"
    and "Train_epoch e \<in> set evs"
    and "Train_epoch (Suc e) \<in> set evs \<or> out = Returned Epochs_exhausted"
  shows "Save_checkpoint
           \<lparr> ck_epoch = Suc e, ck_model = ''scatternet'',
             ck_state_dict = model_state_dict env (model_after env n (Suc e)),
             ck_test_acc = test_acc_at env n e,
             ck_best_acc = best_acc_before (test_acc_at env n) (Suc e),
             ck_optimizer = optimizer_state_dict env (model_after env n (Suc e)) \<rparr>
           True (checkpoint_filename (fmt_float env) a) \<in> set evs"
  using assms
proof (induction "k - e0" arbitrary: e0 v evs)
  case 0
  then show ?case by simp
next
  case (Suc d)
  from Suc.prems(1) show ?case
  proof (cases rule: epoch_loop_upt_cases)
    case finished
    with Suc.prems(4) show ?thesis by simp
  next
    case stopped
    from epoch_body_train_event(2) [OF stopped(2), of e]
      epoch_body_train_event(2) [OF stopped(2), of "Suc e"] Suc.prems(4,5)
      epoch_body_not_exhausted [OF stopped(2)]
    show ?thesis by auto
  next
    case (continued bevs v1 revs)
    from continued(2) Suc.prems(2) show ?thesis
    proof (cases rule: epoch_body_at)
      case (saved pre t)
      have v1: "model v1 = model_after env n (Suc e0)"
        "best_acc v1 = best_acc_before (test_acc_at env n) (Suc e0)"
        using saved Suc.prems(3) by (simp_all add: best_acc_before_Suc)
      show ?thesis
      proof (cases "e = e0")
        case True
        with saved(1) continued(4) Suc.prems(3) show ?thesis
          by (simp add: best_acc_before_Suc)
      next
        case False
        from epoch_body_train_event(2) [OF continued(2)] False Suc.prems(4) continued(4)
        have e: "Train_epoch e \<in> set revs" by auto
        from epoch_loop_train_events(1) [OF continued(3) e] have "Suc e0 \<le> e" by simp
        with epoch_body_train_event(2) [OF continued(2), of "Suc e"] Suc.prems(5) continued(4)
        have e': "Train_epoch (Suc e) \<in> set revs \<or> out = Returned Epochs_exhausted"
          by auto
        from Suc.hyps(2) continued(1) have d: "d = k - Suc e0" by simp
        from Suc.hyps(1) [OF d continued(3) v1 e e'] continued(4)
        show ?thesis by simp
      qed
    qed simp_all
  qed
qed

lemma initial_vars_simps:
  "model (initial_vars env) = model_after env n 0"
  "best_acc (initial_vars env) = best_acc_before acc 0"
  "flat_count (initial_vars env) = 0"
  "files (initial_vars env) = disk env"
  by (simp_all add: initial_vars_def model_after_def best_acc_before_0)

subsection \<open>The privacy cost\<close>


lemma privacy_cost_Inr_iff:
  "privacy_cost env a m = Inr (eps, eps2) \<longleftrightarrow>
     (\<exists>rdp. np_add (rdp_norm_of env a) (rdp_sgd_of env a m) = Inr rdp
        \<and> eps = fst (get_privacy_spent env rdp)
        \<and> eps2 = fst (get_privacy_spent env (rdp_sgd_of env a m)))"
  by (auto simp: privacy_cost_def Let_def split: sum.splits)



lemma epoch_body_epsilon:
  assumes "epoch_body env a n e v = (evs, v', out)"
    and "model v = model_after env n e"
    and "0 < noise_multiplier a"
  shows "Run_log t \<in> set evs \<Longrightarrow> tm_epoch t = e
      \<and> (\<exists>eps eps2. privacy_cost env a (model_after env n (Suc e)) = Inr (eps, eps2)
            \<and> tm_epsilon t = Some eps)"
    and "Print_eps eps eps2 \<in> set evs
      \<Longrightarrow> privacy_cost env a (model_after env n (Suc e)) = Inr (eps, eps2)"
    and "privacy_cost env a (model_after env n (Suc e)) = Inr (eps, eps2)
      \<Longrightarrow> Print_eps eps eps2 \<in> set evs"
proof -
  assume "Run_log t \<in> set evs"
  with assms show "tm_epoch t = e
      \<and> (\<exists>eps eps2. privacy_cost env a (model_after env n (Suc e)) = Inr (eps, eps2)
            \<and> tm_epsilon t = Some eps)"
    by (cases rule: epoch_body_at) auto
next
  assume "Print_eps eps eps2 \<in> set evs"
  with assms show "privacy_cost env a (model_after env n (Suc e)) = Inr (eps, eps2)"
    by (cases rule: epoch_body_at) auto
next
  assume "privacy_cost env a (model_after env n (Suc e)) = Inr (eps, eps2)"
  with assms show "Print_eps eps eps2 \<in> set evs"
    by (cases rule: epoch_body_at) auto
qed

lemma epoch_loop_epsilon:
  assumes "epoch_loop env a n [e0..<k] v = (evs, v', out)"
    and "model v = model_after env n e0"
    and "0 < noise_multiplier a"
  shows "(\<forall>t. Run_log t \<in> set evs \<longrightarrow>
            (\<exists>eps eps2. privacy_cost env a (model_after env n (Suc (tm_epoch t))) = Inr (eps, eps2)
               \<and> tm_epsilon t = Some eps))
     \<and> (\<forall>eps eps2. Print_eps eps eps2 \<in> set evs \<longrightarrow>
            (\<exists>e. Train_epoch e \<in> set evs
               \<and> privacy_cost env a (model_after env n (Suc e)) = Inr (eps, eps2)))
     \<and> (\<forall>e eps eps2. Train_epoch e \<in> set evs
            \<and> privacy_cost env a (model_after env n (Suc e)) = Inr (eps, eps2)
           \<longrightarrow> Print_eps eps eps2 \<in> set evs)"
  using assms(1,2)
proof (induction "k - e0" arbitrary: e0 v evs)
  case 0
  then show ?case by simp
next
  case (Suc d)
  note body = epoch_body_epsilon [OF _ Suc.prems(2) assms(3)]
  from Suc.prems(1) show ?case
  proof (cases rule: epoch_loop_upt_cases)
    case finished
    then show ?thesis by simp
  next
    case stopped
    from body(1) [OF stopped(2)] body(2) [OF stopped(2)] body(3) [OF stopped(2)]
      epoch_body_train_event(1,2) [OF stopped(2)]
    show ?thesis by blast
  next
    case (continued bevs v1 revs)
    have v1: "model v1 = model_after env n (Suc e0)"
      using epoch_body_train_event(3) [OF continued(2)] Suc.prems(2)
      by (simp add: model_after_Suc)
    from Suc.hyps(2) continued(1) have d: "d = k - Suc e0" by simp
    note ih = Suc.hyps(1) [OF d continued(3) v1]
    have set: "set evs = set bevs \<union> set revs"
      by (simp add: continued(4))
    from body(1) [OF continued(2)] body(2) [OF continued(2)] body(3) [OF continued(2)]
      epoch_body_train_event(1,2) [OF continued(2)] ih
    show ?thesis unfolding set by blast
  qed
qed

subsection \<open>The budget rule\<close>






subsection \<open>The plateau rule\<close>



section \<open>Properties\<close>

text \<open>
  C1. With a positive noise multiplier, the epsilon of every telemetry record and every
  printed epsilon is the first component of \<^verbatim>\<open>get_privacy_spent\<close> at the sum of \<^verbatim>\<open>rdp_norm\<close>
  and \<^verbatim>\<open>rdp_sgd\<close> after that epoch, and every trained epoch prints it. Here \<^verbatim>\<open>rdp_norm\<close> is
  the cost of \<^verbatim>\<open>scatter_normalization\<close> when the input norm is \<^verbatim>\<open>BN\<close> and 0 otherwise,
  \<^verbatim>\<open>rdp_sgd\<close> is the per-step divergence at the engine's sample rate and noise multiplier
  times the engine's step count, and the sum is taken entry by entry.
\<close>

theorem epsilon_is_privacy_spent_of_sum:
  assumes "0 < noise_multiplier a" and "n_acc_steps_of a = Inr n"
  shows
    "rdp_norm_of env a =
       (if input_norm a = Some ''BN''
        then Array (scatter_normalization_rdp env (bn_noise_multiplier a)) else Scalar 0)
     \<and> rdp_sgd_of env a m =
         map (\<lambda>x. x * real (engine_steps env m))
           (get_renyi_divergence env (sample_rate_of env a) (noise_multiplier a))
     \<and> np_add (Scalar 0) ys = Inr ys
     \<and> (length xs = length ys \<longrightarrow> np_add (Array xs) ys = Inr (map2 (+) xs ys))
     \<and> (\<forall>t. Run_log t \<in> set (events (main env a)) \<longrightarrow>
           (\<exists>rdp. np_add (rdp_norm_of env a)
                     (rdp_sgd_of env a (model_after env n (Suc (tm_epoch t)))) = Inr rdp
              \<and> tm_epsilon t = Some (fst (get_privacy_spent env rdp))))
     \<and> (\<forall>eps eps2. Print_eps eps eps2 \<in> set (events (main env a)) \<longrightarrow>
           (\<exists>e rdp. Train_epoch e \<in> set (events (main env a))
              \<and> np_add (rdp_norm_of env a) (rdp_sgd_of env a (model_after env n (Suc e))) = Inr rdp
              \<and> eps = fst (get_privacy_spent env rdp)))
     \<and> (\<forall>e rdp. Train_epoch e \<in> set (events (main env a))
            \<and> np_add (rdp_norm_of env a) (rdp_sgd_of env a (model_after env n (Suc e))) = Inr rdp
           \<longrightarrow> Print_eps (fst (get_privacy_spent env rdp))
                 (fst (get_privacy_spent env (rdp_sgd_of env a (model_after env n (Suc e)))))
               \<in> set (events (main env a)))"
proof -
  have loop: "(\<forall>t. Run_log t \<in> set (events (main env a)) \<longrightarrow>
            (\<exists>eps eps2. privacy_cost env a (model_after env n (Suc (tm_epoch t))) = Inr (eps, eps2)
               \<and> tm_epsilon t = Some eps))
     \<and> (\<forall>eps eps2. Print_eps eps eps2 \<in> set (events (main env a)) \<longrightarrow>
            (\<exists>e. Train_epoch e \<in> set (events (main env a))
               \<and> privacy_cost env a (model_after env n (Suc e)) = Inr (eps, eps2)))
     \<and> (\<forall>e eps eps2. Train_epoch e \<in> set (events (main env a))
            \<and> privacy_cost env a (model_after env n (Suc e)) = Inr (eps, eps2)
           \<longrightarrow> Print_eps eps eps2 \<in> set (events (main env a)))"
  proof (cases rule: main_cases [of env a])
    case (config_error err)
    then show ?thesis by simp
  next
    case (no_data n')
    then show ?thesis by simp
  next
    case (trained n' evs v out)
    with assms(2) have n: "n' = n" by simp
    from epoch_loop_epsilon [OF trained(4) [unfolded n] initial_vars_simps(1) assms(1)]
    show ?thesis unfolding trained(5) by simp
  qed
  have "rdp_norm_of env a =
       (if input_norm a = Some ''BN''
        then Array (scatter_normalization_rdp env (bn_noise_multiplier a)) else Scalar 0)"
    by (simp add: rdp_norm_of_def)
  moreover have "rdp_sgd_of env a m =
         map (\<lambda>x. x * real (engine_steps env m))
           (get_renyi_divergence env (sample_rate_of env a) (noise_multiplier a))"
    by (simp add: rdp_sgd_of_def np_scale_def)
  moreover have "np_add (Scalar 0) ys = Inr ys"
    by (simp add: np_add_def map_idI)
  moreover have "length xs = length ys \<longrightarrow> np_add (Array xs) ys = Inr (map2 (+) xs ys)"
    by (simp add: np_add_def)
  moreover from loop have "\<forall>t. Run_log t \<in> set (events (main env a)) \<longrightarrow>
           (\<exists>rdp. np_add (rdp_norm_of env a)
                     (rdp_sgd_of env a (model_after env n (Suc (tm_epoch t)))) = Inr rdp
              \<and> tm_epsilon t = Some (fst (get_privacy_spent env rdp)))"
    unfolding privacy_cost_Inr_iff by blast
  moreover from loop have "\<forall>eps eps2. Print_eps eps eps2 \<in> set (events (main env a)) \<longrightarrow>
           (\<exists>e rdp. Train_epoch e \<in> set (events (main env a))
              \<and> np_add (rdp_norm_of env a) (rdp_sgd_of env a (model_after env n (Suc e))) = Inr rdp
              \<and> eps = fst (get_privacy_spent env rdp))"
    unfolding privacy_cost_Inr_iff by blast
  moreover from loop have "\<forall>e rdp. Train_epoch e \<in> set (events (main env a))
            \<and> np_add (rdp_norm_of env a) (rdp_sgd_of env a (model_after env n (Suc e))) = Inr rdp
           \<longrightarrow> Print_eps (fst (get_privacy_spent env rdp))
                 (fst (get_privacy_spent env (rdp_sgd_of env a (model_after env n (Suc e)))))
               \<in> set (events (main env a))"
    unfolding privacy_cost_Inr_iff by blast
  ultimately show ?thesis by blast
qed

theorem epsilon_is_privacy_spent_of_sum_witness:
  "Print_eps (fst (get_privacy_spent example_env [3, 12]))
      (fst (get_privacy_spent example_env
         (rdp_sgd_of example_env (example_args\<lparr>input_norm := Some ''BN''\<rparr>)
            (model_after example_env 2 (Suc 1)))))
    \<in> set (events (main example_env (example_args\<lparr>input_norm := Some ''BN''\<rparr>)))
   \<and> np_add (Array [1, 2]) [2, 10] = Inr (map2 (+) [1, 2] [2, 10])"
proof -
  let ?a = "example_args\<lparr>input_norm := Some ''BN''\<rparr>"
  have h: "0 < noise_multiplier ?a" "n_acc_steps_of ?a = Inr 2"
    by code_simp+
  have e: "Train_epoch 1 \<in> set (events (main example_env ?a))
      \<and> np_add (rdp_norm_of example_env ?a)
           (rdp_sgd_of example_env ?a (model_after example_env 2 (Suc 1))) = Inr [3, 12]"
    by code_simp
  have l: "length [1, 2 :: real] = length [2, 10 :: real]" by simp
  from epsilon_is_privacy_spent_of_sum [OF h, of example_env _ "[2, 10]" "[1, 2]"] e l
  show ?thesis by blast
qed



text \<open>
  C3. The step count reported to the accountant is the number of logical-batch updates:
  the accountant's steps and the parameter updates are equal after any number of physical
  sub-batches; with a logical batch of \<open>K\<close> sub-batches of size \<open>N\<close> main
  computes \<open>K\<close> accumulation steps, and \<open>K\<close> sub-batches then report exactly one step;
  in general \<open>k\<close> sub-batches report \<open>k div K\<close> steps.
\<close>

theorem accountant_steps_are_logical_batches:
  "accountant_steps (sub_batches n k fresh_engine) = param_updates (sub_batches n k fresh_engine)
   \<and> (0 < K \<and> 0 < N \<longrightarrow>
        n_acc_steps_of (a\<lparr>batch_size := int K * int N, mini_batch_size := int N\<rparr>) = Inr (int K)
        \<and> accountant_steps (sub_batches (int K) K fresh_engine) = 1
        \<and> param_updates (sub_batches (int K) K fresh_engine) = 1)
   \<and> (0 < K \<longrightarrow> accountant_steps (sub_batches (int K) k fresh_engine) = k div K)"
proof (intro conjI impI)
  show "accountant_steps (sub_batches n k fresh_engine) = param_updates (sub_batches n k fresh_engine)"
    by (rule sub_batches_lockstep)
next
  assume "0 < K \<and> 0 < N"
  then show "n_acc_steps_of (a\<lparr>batch_size := int K * int N, mini_batch_size := int N\<rparr>) = Inr (int K)"
    by (simp add: n_acc_steps_of_def)
next
  assume "0 < K \<and> 0 < N"
  then show "accountant_steps (sub_batches (int K) K fresh_engine) = 1"
    using sub_batches_count [of K K] by simp
next
  assume "0 < K \<and> 0 < N"
  then show "param_updates (sub_batches (int K) K fresh_engine) = 1"
    using sub_batches_count [of K K] by simp
next
  assume "0 < K"
  then show "accountant_steps (sub_batches (int K) k fresh_engine) = k div K"
    using sub_batches_count [of K k] by simp
qed

theorem accountant_steps_are_logical_batches_witness:
  "n_acc_steps_of (example_args\<lparr>batch_size := 2048, mini_batch_size := 256\<rparr>) = Inr 8
   \<and> accountant_steps (sub_batches 8 8 fresh_engine) = 1
   \<and> accountant_steps (sub_batches 8 24 fresh_engine) = 3"
  using accountant_steps_are_logical_batches [of 8 24 8 256 example_args]
  by simp



text \<open>
  C5. A configuration with Poisson sampling and a logical batch larger than the physical
  one, or with Poisson sampling and augmentation, is rejected: main raises, and it has done
  nothing but start the logging, so no model was built and no epoch was trained.
\<close>

theorem poisson_combination_rejected:
  assumes "sample_batches a"
    and "mini_batch_size a < batch_size a \<or> augment a"
  shows "(\<exists>err. outcome (main env a) = Raised err)
     \<and> events (main env a) = [Wandb_init (run_params_of (fmt_float env) a)]
     \<and> files_after (main env a) = disk env"
proof (cases "n_acc_steps_of a")
  case (Inl err)
  then show ?thesis by (simp add: main_def)
next
  case (Inr n)
  then have m: "batch_size a mod mini_batch_size a = 0"
    and n: "n = batch_size a div mini_batch_size a"
    by (auto simp: n_acc_steps_of_def Let_def split: if_splits)
  have "n \<noteq> 1 \<or> augment a"
    using assms(2) div_one_mod_zero [OF m] n by auto
  then have "check_sampling a n = Inl AssertionError"
    using assms(1) by (auto simp: check_sampling_def)
  with Inr show ?thesis by (simp add: main_def)
qed

theorem poisson_combination_rejected_witness:
  "outcome (main example_env (example_args\<lparr>sample_batches := True\<rparr>)) \<noteq> Returned Epochs_exhausted
   \<and> events (main example_env
        (example_args\<lparr>sample_batches := True, augment := True, batch_size := 10\<rparr>))
     = [Wandb_init (run_params_of (fmt_float example_env)
          (example_args\<lparr>sample_batches := True, augment := True, batch_size := 10\<rparr>))]"
  using poisson_combination_rejected [of "example_args\<lparr>sample_batches := True\<rparr>" example_env]
    poisson_combination_rejected
      [of "example_args\<lparr>sample_batches := True, augment := True, batch_size := 10\<rparr>" example_env]
  by (auto simp: example_args_def)

text \<open>
  C6. With a noise multiplier of 0 no epsilon is computed: none is printed, every
  telemetry record carries \<^verbatim>\<open>None\<close>, and the budget rule never ends the run. A run that
  starts training ends by the plateau rule or after all its epochs.
\<close>

theorem no_noise_no_epsilon:
  assumes "noise_multiplier a = 0"
  shows "(\<forall>eps eps2. Print_eps eps eps2 \<notin> set (events (main env a)))
    \<and> (\<forall>t. Run_log t \<in> set (events (main env a)) \<longrightarrow> tm_epsilon t = None)
    \<and> outcome (main env a) \<noteq> Returned Budget_reached
    \<and> (outcome (main env a) = Returned Plateau
       \<or> (outcome (main env a) = Returned Epochs_exhausted
            \<and> (\<forall>e < nat (epochs a). Train_epoch e \<in> set (events (main env a))))
       \<or> ((\<exists>err. outcome (main env a) = Raised err)
            \<and> (\<forall>e. Train_epoch e \<notin> set (events (main env a)))))"
proof -
  from assms have nm: "\<not> 0 < noise_multiplier a" by simp
  from main_no_noise(2) [OF nm, of env]
  have "outcome (main env a) \<noteq> Returned Budget_reached" by auto
  with main_no_noise(1) [OF nm, of env] main_no_noise(2) [OF nm, of env]
  show ?thesis by blast
qed

theorem no_noise_no_epsilon_witness:
  "outcome (main example_env (example_args\<lparr>noise_multiplier := 0, max_epsilon := Some 1\<rparr>))
     \<noteq> Returned Budget_reached
   \<and> Print_eps 6 6 \<notin> set (events (main example_env
         (example_args\<lparr>noise_multiplier := 0, max_epsilon := Some 1\<rparr>)))"
  using no_noise_no_epsilon [of "example_args\<lparr>noise_multiplier := 0, max_epsilon := Some 1\<rparr>" example_env]
  by (simp add: example_args_def)

text \<open>
  C7, as stated, fails for an epoch that ends the run: with a budget of 6 the small run
  returns on line 172 in its first epoch, and that epoch is trained but never saved.
\<close>

theorem early_return_skips_checkpoint_counterexample:
  "Train_epoch 0 \<in> set (events (main example_env (example_args\<lparr>max_epsilon := Some 6\<rparr>)))
   \<and> saved_checkpoints (events (main example_env (example_args\<lparr>max_epsilon := Some 6\<rparr>))) = []
   \<and> files_after (main example_env (example_args\<lparr>max_epsilon := Some 6\<rparr>))
        (checkpoint_filename (fmt_float example_env) (example_args\<lparr>max_epsilon := Some 6\<rparr>)) = None"
  by code_simp

text \<open>
  C7, amended. Every call of \<^verbatim>\<open>save_checkpoint\<close> has \<^verbatim>\<open>is_best=True\<close> and the one checkpoint
  path. Every epoch that does not end the run (the next epoch is trained, or the run ends
  because the epochs are exhausted) saves the epoch index plus one, the model tag, the
  state dictionaries of the model and the optimizer after that epoch, and its current and
  best accuracy. Once anything was saved, the file and its \<^verbatim>\<open>_best\<close> copy both hold the last
  state saved.
\<close>

theorem checkpoints_always_best:
  "(\<forall>ck b f. Save_checkpoint ck b f \<in> set (events (main env a))
       \<longrightarrow> b \<and> f = checkpoint_filename (fmt_float env) a)
   \<and> (n_acc_steps_of a = Inr n \<and> Train_epoch e \<in> set (events (main env a))
        \<and> (Train_epoch (Suc e) \<in> set (events (main env a))
             \<or> outcome (main env a) = Returned Epochs_exhausted)
       \<longrightarrow> Save_checkpoint
             \<lparr> ck_epoch = Suc e, ck_model = ''scatternet'',
               ck_state_dict = model_state_dict env (model_after env n (Suc e)),
               ck_test_acc = test_acc_at env n e,
               ck_best_acc = best_acc_before (test_acc_at env n) (Suc e),
               ck_optimizer = optimizer_state_dict env (model_after env n (Suc e)) \<rparr>
             True (checkpoint_filename (fmt_float env) a) \<in> set (events (main env a)))
   \<and> (saved_checkpoints (events (main env a)) \<noteq> []
       \<longrightarrow> files_after (main env a) (checkpoint_filename (fmt_float env) a)
             = Some (last (saved_checkpoints (events (main env a))))
         \<and> files_after (main env a) (checkpoint_filename (fmt_float env) a @ ''_best'')
             = files_after (main env a) (checkpoint_filename (fmt_float env) a))"
proof (intro conjI allI impI)
  fix ck b f
  assume "Save_checkpoint ck b f \<in> set (events (main env a))"
  from main_saves [OF this] show "b" and "f = checkpoint_filename (fmt_float env) a"
    by simp_all
next
  assume h: "n_acc_steps_of a = Inr n \<and> Train_epoch e \<in> set (events (main env a))
        \<and> (Train_epoch (Suc e) \<in> set (events (main env a))
             \<or> outcome (main env a) = Returned Epochs_exhausted)"
  show "Save_checkpoint
             \<lparr> ck_epoch = Suc e, ck_model = ''scatternet'',
               ck_state_dict = model_state_dict env (model_after env n (Suc e)),
               ck_test_acc = test_acc_at env n e,
               ck_best_acc = best_acc_before (test_acc_at env n) (Suc e),
               ck_optimizer = optimizer_state_dict env (model_after env n (Suc e)) \<rparr>
             True (checkpoint_filename (fmt_float env) a) \<in> set (events (main env a))"
  proof (cases rule: main_cases [of env a])
    case (config_error err)
    with h show ?thesis by simp
  next
    case (no_data n')
    with h show ?thesis by simp
  next
    case (trained n' evs v out)
    with h have n: "n' = n" and e: "Train_epoch e \<in> set evs"
      and e': "Train_epoch (Suc e) \<in> set evs \<or> out = Returned Epochs_exhausted"
      by auto
    from epoch_loop_checkpoints [OF trained(4) [unfolded n] initial_vars_simps(1,2) e e']
      trained(5)
    show ?thesis by simp
  qed
next
  assume s: "saved_checkpoints (events (main env a)) \<noteq> []"
  have "files_after (main env a) (checkpoint_filename (fmt_float env) a)
             = Some (last (saved_checkpoints (events (main env a))))
         \<and> files_after (main env a) (checkpoint_filename (fmt_float env) a @ ''_best'')
             = files_after (main env a) (checkpoint_filename (fmt_float env) a)"
  proof (cases rule: main_cases [of env a])
    case (config_error err)
    with s show ?thesis by simp
  next
    case (no_data n')
    with s show ?thesis by simp
  next
    case (trained n' evs v out)
    with s have "saved_checkpoints evs \<noteq> []" by simp
    with epoch_loop_files [OF trained(4)] trained show ?thesis by simp
  qed
  then show "files_after (main env a) (checkpoint_filename (fmt_float env) a)
             = Some (last (saved_checkpoints (events (main env a))))"
    and "files_after (main env a) (checkpoint_filename (fmt_float env) a @ ''_best'')
             = files_after (main env a) (checkpoint_filename (fmt_float env) a)"
    by simp_all
qed

theorem checkpoints_always_best_witness:
  "Save_checkpoint
     \<lparr> ck_epoch = Suc 0, ck_model = ''scatternet'',
       ck_state_dict = model_state_dict example_env (model_after example_env 2 (Suc 0)),
       ck_test_acc = test_acc_at example_env 2 0,
       ck_best_acc = best_acc_before (test_acc_at example_env 2) (Suc 0),
       ck_optimizer = optimizer_state_dict example_env (model_after example_env 2 (Suc 0)) \<rparr>
     True (checkpoint_filename (fmt_float example_env) example_args)
     \<in> set (events (main example_env example_args))
   \<and> files_after (main example_env example_args)
        (checkpoint_filename (fmt_float example_env) example_args @ ''_best'')
      = files_after (main example_env example_args)
        (checkpoint_filename (fmt_float example_env) example_args)"
proof -
  have h1: "n_acc_steps_of example_args = Inr 2
      \<and> Train_epoch 0 \<in> set (events (main example_env example_args))
      \<and> (Train_epoch (Suc 0) \<in> set (events (main example_env example_args))
           \<or> outcome (main example_env example_args) = Returned Epochs_exhausted)"
    by code_simp
  have h2: "saved_checkpoints (events (main example_env example_args)) \<noteq> []"
    by code_simp
  from checkpoints_always_best [of example_env example_args 2 0] h1 h2
  show ?thesis by blast
qed

text \<open>
  C8, as stated, fails when \<^verbatim>\<open>mini_batch_size\<close> is 0: the batch size 20 is not a multiple
  of 0, and line 70 raises a division error, not an assertion error.
\<close>

theorem zero_mini_batch_size_counterexample:
  "\<not> (\<not> mini_batch_size (example_args\<lparr>mini_batch_size := 0\<rparr>)
            dvd batch_size (example_args\<lparr>mini_batch_size := 0\<rparr>)
        \<longrightarrow> outcome (main example_env (example_args\<lparr>mini_batch_size := 0\<rparr>))
              = Raised AssertionError)"
  by (simp add: example_args_def main_def n_acc_steps_of_def)

text \<open>
  C8, amended. With a \<^verbatim>\<open>mini_batch_size\<close> other than 0, a batch size that is not a multiple
  of it fails the assertion of line 70 before any model is built or trained; with
  \<^verbatim>\<open>mini_batch_size\<close> 0 the same line raises a division error; and when the batch size is a
  multiple, the number of accumulation steps is the quotient.
\<close>

theorem batch_size_multiple_check:
  "(mini_batch_size a \<noteq> 0 \<and> \<not> mini_batch_size a dvd batch_size a \<longrightarrow>
      outcome (main env a) = Raised AssertionError
      \<and> events (main env a) = [Wandb_init (run_params_of (fmt_float env) a)])
   \<and> (mini_batch_size a = 0 \<longrightarrow>
      outcome (main env a) = Raised ZeroDivisionError
      \<and> events (main env a) = [Wandb_init (run_params_of (fmt_float env) a)])
   \<and> (mini_batch_size a \<noteq> 0 \<and> mini_batch_size a dvd batch_size a \<longrightarrow>
      n_acc_steps_of a = Inr (batch_size a div mini_batch_size a))"
  by (auto simp: main_def n_acc_steps_of_def Let_def mod_eq_0_iff_dvd)

theorem batch_size_multiple_check_witness:
  "outcome (main example_env (example_args\<lparr>batch_size := 25\<rparr>)) = Raised AssertionError
   \<and> outcome (main example_env (example_args\<lparr>mini_batch_size := 0\<rparr>)) = Raised ZeroDivisionError
   \<and> n_acc_steps_of (example_args\<lparr>batch_size := 2048, mini_batch_size := 256\<rparr>) = Inr 8"
  using batch_size_multiple_check [of "example_args\<lparr>batch_size := 25\<rparr>" example_env]
    batch_size_multiple_check [of "example_args\<lparr>mini_batch_size := 0\<rparr>" example_env]
    batch_size_multiple_check [of "example_args\<lparr>batch_size := 2048, mini_batch_size := 256\<rparr>" example_env]
  by (simp add: example_args_def)



text \<open>
  C10. Whatever the dataset, the run name is \<^verbatim>\<open>cifar10_scatternet_\<close> followed by the noise
  multiplier, the run is logged under that name with the dataset field \<^verbatim>\<open>cifar10\<close>, every
  checkpoint goes to the one path built from \<^verbatim>\<open>out_dir\<close>, the noise multiplier and the
  seed, and two runs that agree on these three write to the same path.
\<close>

theorem run_labelled_cifar10:
  "run_name (fmt_float env) a = ''cifar10_scatternet_'' @ fmt_float env (noise_multiplier a)
   \<and> hd (events (main env a)) = Wandb_init (run_params_of (fmt_float env) a)
   \<and> rp_group (run_params_of (fmt_float env) a) = run_name (fmt_float env) a
   \<and> cfg_name (rp_config (run_params_of (fmt_float env) a)) = run_name (fmt_float env) a
   \<and> cfg_dataset (rp_config (run_params_of (fmt_float env) a)) = ''cifar10''
   \<and> (\<forall>ck b f. Save_checkpoint ck b f \<in> set (events (main env a))
         \<longrightarrow> f = checkpoint_filename (fmt_float env) a)
   \<and> (out_dir a = out_dir a' \<and> noise_multiplier a = noise_multiplier a' \<and> seed a = seed a'
         \<longrightarrow> checkpoint_filename (fmt_float env) a = checkpoint_filename (fmt_float env) a')"
  using main_saves [of _ _ _ env a] main_first_event [of env a]
  by (auto simp: run_name_def run_params_of_def checkpoint_filename_def run_dir_def)

theorem run_labelled_cifar10_witness:
  "checkpoint_filename (fmt_float example_env) (example_args\<lparr>dataset := ''fmnist''\<rparr>)
     = checkpoint_filename (fmt_float example_env) example_args
   \<and> cfg_dataset (rp_config (run_params_of (fmt_float example_env)
         (example_args\<lparr>dataset := ''fmnist''\<rparr>))) = ''cifar10''"
proof -
  let ?a = "example_args\<lparr>dataset := ''fmnist''\<rparr>"
  note inst = run_labelled_cifar10 [of example_env ?a example_args]
  from inst have "out_dir ?a = out_dir example_args
      \<and> noise_multiplier ?a = noise_multiplier example_args \<and> seed ?a = seed example_args
      \<longrightarrow> checkpoint_filename (fmt_float example_env) ?a
          = checkpoint_filename (fmt_float example_env) example_args"
    by blast
  then have "checkpoint_filename (fmt_float example_env) ?a
      = checkpoint_filename (fmt_float example_env) example_args"
    by simp
  with inst show ?thesis by blast
qed

end
